theory Spec2Isabelle
  imports Complex_Main
begin

section \<open>Exceptions and dictionaries\<close>

text \<open>
  Every exception the Python code can raise on the modelled paths is a value of
  \<open>error\<close>; a function that may raise returns \<open>error + 'a\<close> with \<open>Inl\<close> the exception.
  \<open>KeyError\<close>, \<open>IndexError\<close> and \<open>UnboundLocalError\<close> are the built-in exceptions of
  a missing dictionary key, an index out of range and a local variable read before
  its first assignment.
\<close>

datatype error =
    InvalidResponse
  | APIError
  | NotConnected
  | KeyError
  | IndexError
  | UnboundLocalError

text \<open>
  Modelled from the spec: the module \<open>imouapi/exceptions.py\<close> (the class
  \<open>ImouException\<close> and its subclasses) is not among the sources. The spec's error
  taxonomy is a single domain family with the kinds InvalidResponse, APIError and
  NotConnected; \<open>except ImouException\<close> catches exactly these.
\<close>

fun is_ImouException :: "error \<Rightarrow> bool" where
  "is_ImouException InvalidResponse = True"
| "is_ImouException APIError = True"
| "is_ImouException NotConnected = True"
| "is_ImouException KeyError = False"
| "is_ImouException IndexError = False"
| "is_ImouException UnboundLocalError = False"

text \<open>
  A Python \<open>dict\<close> with string keys is an association list in insertion order.
  \<open>k in d\<close> is \<open>dict_contains\<close>, \<open>d[k]\<close> is \<open>dict_get\<close> (raising \<open>KeyError\<close>),
  \<open>d[k] = v\<close> is \<open>dict_set\<close> (an existing key keeps its position).
\<close>

definition dict_contains :: "('k \<times> 'v) list \<Rightarrow> 'k \<Rightarrow> bool" where
  "dict_contains d k = (k \<in> set (map fst d))"

definition dict_get :: "('k \<times> 'v) list \<Rightarrow> 'k \<Rightarrow> error + 'v" where
  "dict_get d k = (case map_of d k of None \<Rightarrow> Inl KeyError | Some v \<Rightarrow> Inr v)"

fun dict_set :: "'k \<Rightarrow> 'v \<Rightarrow> ('k \<times> 'v) list \<Rightarrow> ('k \<times> 'v) list" where
  "dict_set k v [] = [(k, v)]"
| "dict_set k v ((k', v') # d) =
     (if k = k' then (k, v) # d else (k', v') # dict_set k v d)"

section \<open>Constants of \<open>imouapi/const.py\<close>\<close>

definition WAIT_AFTER_WAKE_UP :: real where
  "WAIT_AFTER_WAKE_UP = 4"

definition CAMERA_WAIT_BEFORE_DOWNLOAD :: real where
  "CAMERA_WAIT_BEFORE_DOWNLOAD = 3 / 2"

definition ONLINE_STATUS :: "(string \<times> string) list" where
  "ONLINE_STATUS =
     [(''0'', ''Offline''),
      (''1'', ''Online''),
      (''4'', ''Dormant''),
      (''UNKNOWN'', ''Unknown'')]"

definition BUTTONS :: "(string \<times> string) list" where
  "BUTTONS =
     [(''restartDevice'', ''Restart device''),
      (''turnCollection'', ''Turn to'')]"

definition SENSORS :: "(string \<times> string) list" where
  "SENSORS = [(''status'', ''Status'')]"

definition SELECTS :: "(string \<times> string) list" where
  "SELECTS = [(''turnCollection'', ''Turn to favourite point'')]"

section \<open>Decoded responses of the cloud API\<close>

text \<open>
  The API client returns decoded JSON objects. Each object is a record of the keys
  the code reads; a key that may be missing is an \<open>option\<close> (\<open>None\<close>: the key is
  absent). Present values have the JSON type the code expects of them (a string,
  a list of objects).
\<close>

record online_channel =
  oc_channelId :: "string option"
  oc_onLine :: "string option"

record online_payload =
  op_onLine :: "string option"
  op_channels :: "online_channel list option"

record channel_detail =
  cd_deviceId :: "string option"
  cd_channelId :: "string option"
  cd_channelName :: "string option"

record device_detail =
  dd_name :: "string option"
  dd_deviceModel :: "string option"
  dd_channels :: "channel_detail list option"

record detail_list_payload =
  dl_deviceList :: "device_detail list option"

record base_device =
  bd_deviceId :: "string option"

record base_list_payload =
  bl_deviceList :: "base_device list option"
  bl_count :: "int option"

record collection =
  col_name :: "string option"

record collection_payload =
  cp_collections :: "collection list option"

section \<open>The API client and the run-time environment\<close>

text \<open>
  The module \<open>imouapi/api.py\<close> is an external collaborator: the client is a parameter
  of every operation. Each call takes the state \<open>'w\<close> of the outside world (the
  cloud and the cameras) and returns a decoded response or an exception, together
  with the new world, so that the same lookup may answer differently at two
  moments.
\<close>

record 'w ImouAPIClient =
  async_api_deviceBaseList :: "'w \<Rightarrow> (error + base_list_payload) \<times> 'w"
  async_api_deviceBaseDetailList :: "string list \<Rightarrow> 'w \<Rightarrow> (error + detail_list_payload) \<times> 'w"
  async_api_getCollection :: "string \<Rightarrow> string \<Rightarrow> 'w \<Rightarrow> (error + collection_payload) \<times> 'w"
  async_api_deviceOnline :: "string \<Rightarrow> 'w \<Rightarrow> (error + online_payload) \<times> 'w"
  async_api_setDeviceCameraStatus :: "string \<Rightarrow> string \<Rightarrow> bool \<Rightarrow> 'w \<Rightarrow> (error + unit) \<times> 'w"
  async_api_restartDevice :: "string \<Rightarrow> 'w \<Rightarrow> (error + unit) \<times> 'w"
  async_api_turnCollection :: "string \<Rightarrow> string \<Rightarrow> string \<Rightarrow> 'w \<Rightarrow> (error + unit) \<times> 'w"

datatype log_level = Debug | Warning | Error

text \<open>
  The observable effects, in the order they happen: every call issued to the API
  client (with its arguments), every \<open>asyncio.sleep\<close> (with its duration) and
  every call to the logger (with its level).
\<close>

datatype event =
    Api_deviceBaseList
  | Api_deviceBaseDetailList "string list"
  | Api_getCollection string string
  | Api_deviceOnline string
  | Api_setDeviceCameraStatus string string bool
  | Api_restartDevice string
  | Api_turnCollection string string string
  | Sleep real
  | Log log_level

record 'w runtime =
  world :: 'w
  trace :: "event list"

definition emit :: "event \<Rightarrow> 'w runtime \<Rightarrow> 'w runtime" where
  "emit ev rt = rt\<lparr>trace := trace rt @ [ev]\<rparr>"

definition call :: "event \<Rightarrow> ('w \<Rightarrow> (error + 'a) \<times> 'w) \<Rightarrow> 'w runtime \<Rightarrow> (error + 'a) \<times> 'w runtime" where
  "call ev f rt =
     (case f (world rt) of
        (r, w') \<Rightarrow> (r, \<lparr>world = w', trace = trace rt @ [ev]\<rparr>))"

section \<open>Entities (\<open>imouapi/channel_entity.py\<close>)\<close>

text \<open>
  The attributes of \<open>ImouEntity\<close>, without the two references it holds: the API
  client is the parameter \<open>api\<close> of each operation, and the object that
  \<open>_device_instance\<close> points to is the parameter \<open>owner\<close> (\<open>None\<close> while the
  reference is unset), returned updated.
\<close>

record ImouEntity =
  ent_device_id :: string
  ent_channel_id :: string
  ent_sensor_param :: string
  ent_sensor_type :: string
  ent_description :: string
  ent_enabled :: bool
  ent_updated :: bool
  ent_attributes :: "(string \<times> string) list"

record ImouSensor = ImouEntity +
  state :: "string option"

record ImouSelect = ImouEntity +
  current_option :: "string option"
  available_options :: "string list"

datatype entity =
    Sensor ImouSensor
  | Button ImouEntity
  | Select ImouSelect

definition ImouSensor_init :: "string \<Rightarrow> string \<Rightarrow> string \<Rightarrow> string \<Rightarrow> error + ImouSensor" where
  "ImouSensor_init device_id channel_id sensor_type sensor_param =
     (case dict_get SENSORS sensor_type of
        Inl e \<Rightarrow> Inl e
      | Inr d \<Rightarrow> Inr \<lparr>ent_device_id = device_id, ent_channel_id = channel_id,
                     ent_sensor_param = sensor_param, ent_sensor_type = sensor_type,
                     ent_description = d @ '' '' @ sensor_param,
                     ent_enabled = True, ent_updated = False, ent_attributes = [],
                     state = None\<rparr>)"

definition ImouButton_init :: "string \<Rightarrow> string \<Rightarrow> string \<Rightarrow> string \<Rightarrow> error + ImouEntity" where
  "ImouButton_init device_id channel_id sensor_type sensor_param =
     (case dict_get BUTTONS sensor_type of
        Inl e \<Rightarrow> Inl e
      | Inr d \<Rightarrow> Inr \<lparr>ent_device_id = device_id, ent_channel_id = channel_id,
                     ent_sensor_param = sensor_param, ent_sensor_type = sensor_type,
                     ent_description = d @ '' '' @ sensor_param,
                     ent_enabled = True, ent_updated = False, ent_attributes = []\<rparr>)"

definition ImouSelect_init :: "string \<Rightarrow> string \<Rightarrow> string \<Rightarrow> string \<Rightarrow> error + ImouSelect" where
  "ImouSelect_init device_id channel_id sensor_type sensor_param =
     (case dict_get SELECTS sensor_type of
        Inl e \<Rightarrow> Inl e
      | Inr d \<Rightarrow> Inr \<lparr>ent_device_id = device_id, ent_channel_id = channel_id,
                     ent_sensor_param = sensor_param, ent_sensor_type = sensor_type,
                     ent_description = d @ '' '' @ sensor_param,
                     ent_enabled = True, ent_updated = False, ent_attributes = [],
                     current_option = None, available_options = []\<rparr>)"

section \<open>Channels (\<open>imouapi/channel.py\<close>)\<close>

record ImouCamChannel =
  device_id :: string
  channel_id :: string
  status :: string
  channel_name :: string
  device_name :: string
  device_model :: string
  full_name :: string
  given_name :: string
  collections :: "collection list"
  sensor_instances :: "(string \<times> entity list) list"
  initialized :: bool
  enabled :: bool
  sleepable :: bool
  wait_after_wakeup :: real
  camera_wait_before_download :: real

definition ImouCamChannel_init :: "string \<Rightarrow> string \<Rightarrow> ImouCamChannel" where
  "ImouCamChannel_init did cid =
     \<lparr>device_id = did, channel_id = cid,
      status = ''unknown'',
      channel_name = ''N.A'', device_name = ''N.A'', device_model = ''N.A'',
      full_name = ''N.A'', given_name = '''',
      collections = [],
      sensor_instances = [(''sensor'', []), (''button'', []), (''select'', [])],
      initialized = False, enabled = True, sleepable = False,
      wait_after_wakeup = WAIT_AFTER_WAKE_UP,
      camera_wait_before_download = CAMERA_WAIT_BEFORE_DOWNLOAD\<rparr>"

definition get_name :: "ImouCamChannel \<Rightarrow> string" where
  "get_name ch = (if given_name ch \<noteq> '''' then given_name ch else full_name ch)"

definition get_status :: "ImouCamChannel \<Rightarrow> string" where
  "get_status ch = status ch"

text \<open>
  \<open>is_online\<close>: both operands of \<open>or\<close> look the status up in \<open>ONLINE_STATUS\<close>; the
  second is evaluated only when the first comparison is false.
\<close>

definition is_online :: "ImouCamChannel \<Rightarrow> error + bool" where
  "is_online ch =
     (case dict_get ONLINE_STATUS (status ch) of
        Inl e \<Rightarrow> Inl e
      | Inr l \<Rightarrow>
          if l = ''Online'' then Inr True
          else (case dict_get ONLINE_STATUS (status ch) of
                  Inl e \<Rightarrow> Inl e
                | Inr l' \<Rightarrow> Inr (l' = ''Dormant'')))"

definition add_sensor_instance :: "string \<Rightarrow> entity \<Rightarrow> ImouCamChannel \<Rightarrow> error + ImouCamChannel" where
  "add_sensor_instance platform instance ch =
     (case dict_get (sensor_instances ch) platform of
        Inl e \<Rightarrow> Inl e
      | Inr l \<Rightarrow> Inr (ch\<lparr>sensor_instances :=
                         dict_set platform (l @ [instance]) (sensor_instances ch)\<rparr>))"

text \<open>
  \<open>next((c for c in channels if c.get("channelId") == channel_id), None)\<close>: a
  record without the key compares unequal and is passed over.
\<close>

fun find_channel_get :: "string \<Rightarrow> online_channel list \<Rightarrow> online_channel option" where
  "find_channel_get cid [] = None"
| "find_channel_get cid (c # cs) =
     (if oc_channelId c = Some cid then Some c else find_channel_get cid cs)"

definition async_refresh_status ::
  "'w ImouAPIClient \<Rightarrow> ImouCamChannel \<Rightarrow> 'w runtime \<Rightarrow> (error + unit) \<times> ImouCamChannel \<times> 'w runtime" where
  "async_refresh_status api ch rt =
     (case call (Api_deviceOnline (device_id ch)) (async_api_deviceOnline api (device_id ch)) rt of
        (Inl e, rt1) \<Rightarrow> (Inl e, ch, rt1)
      | (Inr device_data, rt1) \<Rightarrow>
          (case op_onLine device_data of
             None \<Rightarrow> (Inl InvalidResponse, ch, rt1)
           | Some top_code \<Rightarrow>
               if \<not> dict_contains ONLINE_STATUS top_code then (Inl InvalidResponse, ch, rt1)
               else
                 (case op_channels device_data of
                    None \<Rightarrow> (Inl KeyError, ch, rt1)
                  | Some chans \<Rightarrow>
                      (case find_channel_get (channel_id ch) chans of
                         None \<Rightarrow> (Inl InvalidResponse, ch, rt1)
                       | Some channel_data \<Rightarrow>
                           (case oc_onLine channel_data of
                              None \<Rightarrow> (Inl InvalidResponse, ch, rt1)
                            | Some code \<Rightarrow>
                                if \<not> dict_contains ONLINE_STATUS code
                                then (Inl InvalidResponse, ch, rt1)
                                else (Inr (), ch\<lparr>status := code\<rparr>, rt1))))))"

definition async_wakeup ::
  "'w ImouAPIClient \<Rightarrow> ImouCamChannel \<Rightarrow> 'w runtime \<Rightarrow> (error + bool) \<times> ImouCamChannel \<times> 'w runtime" where
  "async_wakeup api ch rt =
     (if \<not> sleepable ch then (Inr True, ch, rt)
      else
        (case async_refresh_status api ch rt of
           (Inl e, ch1, rt1) \<Rightarrow> (Inl e, ch1, rt1)
         | (Inr u, ch1, rt1) \<Rightarrow>
             (case dict_get ONLINE_STATUS (status ch1) of
                Inl e \<Rightarrow> (Inl e, ch1, rt1)
              | Inr l \<Rightarrow>
                  if l = ''Online'' then (Inr True, ch1, rt1)
                  else
                    (case call (Api_setDeviceCameraStatus (device_id ch1) ''closeDormant'' True)
                            (async_api_setDeviceCameraStatus api (device_id ch1) ''closeDormant'' True)
                            (emit (Log Debug) rt1) of
                       (Inl e, rt2) \<Rightarrow> (Inl e, ch1, rt2)
                     | (Inr u2, rt2) \<Rightarrow>
                         (case async_refresh_status api ch1 (emit (Sleep (wait_after_wakeup ch1)) rt2) of
                            (Inl e, ch2, rt3) \<Rightarrow> (Inl e, ch2, rt3)
                          | (Inr u3, ch2, rt3) \<Rightarrow>
                              (case dict_get ONLINE_STATUS (status ch2) of
                                 Inl e \<Rightarrow> (Inl e, ch2, rt3)
                               | Inr l2 \<Rightarrow>
                                   if l2 = ''Online'' then (Inr True, ch2, emit (Log Debug) rt3)
                                   else (Inr False, ch2, emit (Log Warning) rt3)))))))"

text \<open>
  \<open>next((c for c in device_data["channels"] if c["channelId"] == channel_id), None)\<close>:
  the generator reads the key of each record up to the first match, and a record
  without it raises \<open>KeyError\<close>.
\<close>

fun find_channel_detail :: "string \<Rightarrow> channel_detail list \<Rightarrow> error + channel_detail option" where
  "find_channel_detail cid [] = Inr None"
| "find_channel_detail cid (c # cs) =
     (case cd_channelId c of
        None \<Rightarrow> Inl KeyError
      | Some i \<Rightarrow> if i = cid then Inr (Some c) else find_channel_detail cid cs)"

text \<open>The loop of \<open>async_initialize\<close> over the collections: one button for each.\<close>

fun add_collection_buttons :: "collection list \<Rightarrow> ImouCamChannel \<Rightarrow> (error + unit) \<times> ImouCamChannel" where
  "add_collection_buttons [] ch = (Inr (), ch)"
| "add_collection_buttons (c # cs) ch =
     (case col_name c of
        None \<Rightarrow> (Inl KeyError, ch)
      | Some n \<Rightarrow>
          (case ImouButton_init (device_id ch) (channel_id ch) ''turnCollection'' n of
             Inl e \<Rightarrow> (Inl e, ch)
           | Inr b \<Rightarrow>
               (case add_sensor_instance ''button'' (Button b) ch of
                  Inl e \<Rightarrow> (Inl e, ch)
                | Inr ch' \<Rightarrow> add_collection_buttons cs ch')))"

text \<open>
  The second half of the \<open>try\<close> block: the status sensor, the restart button, the
  collection buttons and the select, attached in this order.
\<close>

definition add_entities :: "ImouCamChannel \<Rightarrow> (error + unit) \<times> ImouCamChannel" where
  "add_entities ch =
     (case ImouSensor_init (device_id ch) (channel_id ch) ''status'' [] of
        Inl e \<Rightarrow> (Inl e, ch)
      | Inr s \<Rightarrow>
     (case add_sensor_instance ''sensor'' (Sensor s) ch of
        Inl e \<Rightarrow> (Inl e, ch)
      | Inr ch1 \<Rightarrow>
     (case ImouButton_init (device_id ch1) (channel_id ch1) ''restartDevice'' [] of
        Inl e \<Rightarrow> (Inl e, ch1)
      | Inr b \<Rightarrow>
     (case add_sensor_instance ''button'' (Button b) ch1 of
        Inl e \<Rightarrow> (Inl e, ch1)
      | Inr ch2 \<Rightarrow>
     (case add_collection_buttons (collections ch2) ch2 of
        (Inl e, ch3) \<Rightarrow> (Inl e, ch3)
      | (Inr u, ch3) \<Rightarrow>
     (case ImouSelect_init (device_id ch3) (channel_id ch3) ''turnCollection'' [] of
        Inl e \<Rightarrow> (Inl e, ch3)
      | Inr sel \<Rightarrow>
     (case add_sensor_instance ''select'' (Select sel) ch3 of
        Inl e \<Rightarrow> (Inl e, ch3)
      | Inr ch4 \<Rightarrow> (Inr (), ch4))))))))"

text \<open>
  The body of the \<open>try\<close> block of \<open>async_initialize\<close>. An exception leaves the
  attributes assigned before it in place, so the channel is returned in both
  cases.
\<close>

definition initialize_body ::
  "'w ImouAPIClient \<Rightarrow> ImouCamChannel \<Rightarrow> 'w runtime \<Rightarrow> (error + unit) \<times> ImouCamChannel \<times> 'w runtime" where
  "initialize_body api ch rt =
     (case call (Api_deviceBaseDetailList [device_id ch])
             (async_api_deviceBaseDetailList api [device_id ch]) rt of
        (Inl e, rt1) \<Rightarrow> (Inl e, ch, rt1)
      | (Inr device_array, rt1) \<Rightarrow>
     (case dl_deviceList device_array of
        None \<Rightarrow> (Inl InvalidResponse, ch, rt1)
      | Some dl \<Rightarrow>
     if length dl \<noteq> 1 then (Inl InvalidResponse, ch, rt1)
     else
     (case dd_name (dl ! 0) of
        None \<Rightarrow> (Inl KeyError, ch, rt1)
      | Some nm \<Rightarrow>
     (case dd_deviceModel (dl ! 0) of
        None \<Rightarrow> (Inl KeyError, ch\<lparr>device_name := nm\<rparr>, rt1)
      | Some model \<Rightarrow>
     (let ch1 = ch\<lparr>device_name := nm, device_model := model\<rparr> in
     (case dd_channels (dl ! 0) of
        None \<Rightarrow> (Inl KeyError, ch1, rt1)
      | Some chans \<Rightarrow>
     (case find_channel_detail (channel_id ch1) chans of
        Inl e \<Rightarrow> (Inl e, ch1, rt1)
      | Inr None \<Rightarrow> (Inl InvalidResponse, ch1, rt1)
      | Inr (Some channel_data) \<Rightarrow>
     (case cd_channelName channel_data of
        None \<Rightarrow> (Inl KeyError, ch1, rt1)
      | Some cn \<Rightarrow>
     (let ch2 = ch1\<lparr>channel_name := cn, full_name := device_name ch1 @ '' - '' @ cn\<rparr> in
     (case call (Api_getCollection (device_id ch2) (channel_id ch2))
             (async_api_getCollection api (device_id ch2) (channel_id ch2))
             (emit (Log Debug) rt1) of
        (Inl e, rt2) \<Rightarrow> (Inl e, ch2, rt2)
      | (Inr favourites, rt2) \<Rightarrow>
     (case cp_collections favourites of
        None \<Rightarrow> (Inl KeyError, ch2, rt2)
      | Some cols \<Rightarrow>
     (case add_entities (ch2\<lparr>collections := cols\<rparr>) of
        (r, ch3) \<Rightarrow> (r, ch3, emit (Log Debug) rt2)))))))))))))"

text \<open>
  \<open>async_initialize\<close>: the \<open>except ImouException\<close> clause logs an error and falls
  through to the assignment of \<open>_initialized\<close>; any other exception leaves the
  function before that assignment.
\<close>

definition async_initialize ::
  "'w ImouAPIClient \<Rightarrow> ImouCamChannel \<Rightarrow> 'w runtime \<Rightarrow> (error + unit) \<times> ImouCamChannel \<times> 'w runtime" where
  "async_initialize api ch rt =
     (case initialize_body api ch rt of
        (Inr u, ch1, rt1) \<Rightarrow> (Inr (), ch1\<lparr>initialized := True\<rparr>, rt1)
      | (Inl e, ch1, rt1) \<Rightarrow>
          if is_ImouException e
          then (Inr (), ch1\<lparr>initialized := True\<rparr>, emit (Log Error) rt1)
          else (Inl e, ch1, rt1))"

definition async_get_data ::
  "'w ImouAPIClient \<Rightarrow> ImouCamChannel \<Rightarrow> 'w runtime \<Rightarrow> (error + bool) \<times> ImouCamChannel \<times> 'w runtime" where
  "async_get_data api ch rt =
     (if \<not> enabled ch then (Inr False, ch, rt)
      else
        (case (if \<not> initialized ch then async_initialize api ch rt else (Inr (), ch, rt)) of
           (Inl e, ch1, rt1) \<Rightarrow> (Inl e, ch1, rt1)
         | (Inr u, ch1, rt1) \<Rightarrow>
             (case async_refresh_status api ch1 (emit (Log Debug) rt1) of
                (Inl e, ch2, rt2) \<Rightarrow> (Inl e, ch2, rt2)
              | (Inr u2, ch2, rt2) \<Rightarrow> (Inr True, ch2, rt2))))"

section \<open>Discovery (\<open>ImouDiscoverService\<close>)\<close>

text \<open>
  The inner loop of \<open>async_discover_channels\<close>, over the channels of one device:
  a new channel for each record, initialized and stored under its name.
\<close>

fun discover_device_channels ::
  "'w ImouAPIClient \<Rightarrow> channel_detail list \<Rightarrow> (string \<times> ImouCamChannel) list \<Rightarrow> 'w runtime \<Rightarrow>
   (error + unit) \<times> (string \<times> ImouCamChannel) list \<times> 'w runtime" where
  "discover_device_channels api [] channels rt = (Inr (), channels, rt)"
| "discover_device_channels api (channel_data # rest) channels rt =
     (case cd_deviceId channel_data of
        None \<Rightarrow> (Inl KeyError, channels, rt)
      | Some did \<Rightarrow>
          (case cd_channelId channel_data of
             None \<Rightarrow> (Inl KeyError, channels, rt)
           | Some cid \<Rightarrow>
               (case async_initialize api (ImouCamChannel_init did cid) rt of
                  (Inl e, channel, rt1) \<Rightarrow> (Inl e, channels, rt1)
                | (Inr u, channel, rt1) \<Rightarrow>
                    discover_device_channels api rest
                      (dict_set (get_name channel) channel channels) rt1)))"

text \<open>
  The outer loop, over the devices of the list. A \<open>raise\<close> anywhere in it leaves
  the loop: the \<open>try\<close> statement encloses the whole loop, not one iteration.
\<close>

fun discover_devices ::
  "'w ImouAPIClient \<Rightarrow> base_device list \<Rightarrow> (string \<times> ImouCamChannel) list \<Rightarrow> 'w runtime \<Rightarrow>
   (error + unit) \<times> (string \<times> ImouCamChannel) list \<times> 'w runtime" where
  "discover_devices api [] channels rt = (Inr (), channels, rt)"
| "discover_devices api (device_data # rest) channels rt =
     (case bd_deviceId device_data of
        None \<Rightarrow> (Inl KeyError, channels, rt)
      | Some did \<Rightarrow>
          (case call (Api_deviceBaseDetailList [did])
                  (async_api_deviceBaseDetailList api [did]) rt of
             (Inl e, rt1) \<Rightarrow> (Inl e, channels, rt1)
           | (Inr device_detailed_data_array, rt1) \<Rightarrow>
               (case dl_deviceList device_detailed_data_array of
                  None \<Rightarrow> (Inl InvalidResponse, channels, rt1)
                | Some dl \<Rightarrow>
                    if length dl \<noteq> 1 then (Inl InvalidResponse, channels, rt1)
                    else
                      (case dd_channels (dl ! 0) of
                         None \<Rightarrow> (Inl KeyError, channels, rt1)
                       | Some chans \<Rightarrow>
                           (case discover_device_channels api chans channels rt1 of
                              (Inl e, channels1, rt2) \<Rightarrow> (Inl e, channels1, rt2)
                            | (Inr u, channels1, rt2) \<Rightarrow>
                                discover_devices api rest channels1 rt2)))))"

text \<open>
  The body of the \<open>try\<close> block. The local variable \<open>channels\<close> is \<open>None\<close> while it
  is unbound: it is first assigned after the device list has been fetched and
  checked.
\<close>

definition discover_body ::
  "'w ImouAPIClient \<Rightarrow> 'w runtime \<Rightarrow>
   (error + unit) \<times> (string \<times> ImouCamChannel) list option \<times> 'w runtime" where
  "discover_body api rt =
     (case call Api_deviceBaseList (async_api_deviceBaseList api) rt of
        (Inl e, rt1) \<Rightarrow> (Inl e, None, rt1)
      | (Inr devices_data, rt1) \<Rightarrow>
          (case bl_deviceList devices_data of
             None \<Rightarrow> (Inl InvalidResponse, None, rt1)
           | Some device_list \<Rightarrow>
               (case bl_count devices_data of
                  None \<Rightarrow> (Inl InvalidResponse, None, rt1)
                | Some n \<Rightarrow>
                    (case discover_devices api device_list [] (emit (Log Debug) rt1) of
                       (r, channels, rt2) \<Rightarrow> (r, Some channels, rt2)))))"

text \<open>
  \<open>async_discover_channels\<close>: \<open>InvalidResponse\<close> is logged as a warning, any other
  domain exception as an error, anything else propagates; after a handled
  exception the function returns the local variable \<open>channels\<close>, which raises
  \<open>UnboundLocalError\<close> when it was never assigned.
\<close>

definition async_discover_channels ::
  "'w ImouAPIClient \<Rightarrow> 'w runtime \<Rightarrow> (error + (string \<times> ImouCamChannel) list) \<times> 'w runtime" where
  "async_discover_channels api rt =
     (case discover_body api (emit (Log Debug) rt) of
        (r, channels, rt1) \<Rightarrow>
          (case (case r of
                   Inr u \<Rightarrow> (Inr (), rt1)
                 | Inl e \<Rightarrow>
                     if e = InvalidResponse then (Inr (), emit (Log Warning) rt1)
                     else if is_ImouException e then (Inr (), emit (Log Error) rt1)
                     else (Inl e, rt1)) of
             (Inl e, rt2) \<Rightarrow> (Inl e, rt2)
           | (Inr u, rt2) \<Rightarrow>
               (case channels of
                  None \<Rightarrow> (Inl UnboundLocalError, rt2)
                | Some chs \<Rightarrow> (Inr chs, rt2))))"

section \<open>Operations of the entities\<close>

definition async_is_ready ::
  "'w ImouAPIClient \<Rightarrow> 'a ImouEntity_scheme \<Rightarrow> ImouCamChannel option \<Rightarrow> 'w runtime \<Rightarrow>
   (error + bool) \<times> ImouCamChannel option \<times> 'w runtime" where
  "async_is_ready api ent owner rt =
     (if \<not> ent_enabled ent then (Inr False, owner, rt)
      else
        (case owner of
           Some ch \<Rightarrow>
             (case async_wakeup api ch rt of
                (Inl e, ch1, rt1) \<Rightarrow> (Inl e, Some ch1, rt1)
              | (Inr awake, ch1, rt1) \<Rightarrow>
                  if awake then (Inr True, Some ch1, rt1) else (Inr False, Some ch1, rt1))
         | None \<Rightarrow> (Inr True, None, rt)))"

text \<open>
  \<open>next((c for c in device_data["channels"] if c["channelId"] == channel_id), None)\<close>
  in \<open>ImouSensor.async_update\<close>: the key is read with \<open>c["channelId"]\<close>, so a record
  without it raises \<open>KeyError\<close>.
\<close>

fun find_channel_online :: "string \<Rightarrow> online_channel list \<Rightarrow> error + online_channel option" where
  "find_channel_online cid [] = Inr None"
| "find_channel_online cid (c # cs) =
     (case oc_channelId c of
        None \<Rightarrow> Inl KeyError
      | Some i \<Rightarrow> if i = cid then Inr (Some c) else find_channel_online cid cs)"

text \<open>\<open>self._state = ONLINE_STATUS[key]\<close>\<close>

definition set_state :: "string \<Rightarrow> ImouSensor \<Rightarrow> 'w runtime \<Rightarrow> (error + unit) \<times> ImouSensor \<times> 'w runtime" where
  "set_state key s rt =
     (case dict_get ONLINE_STATUS key of
        Inl e \<Rightarrow> (Inl e, s, rt)
      | Inr l \<Rightarrow> (Inr (), s\<lparr>state := Some l\<rparr>, rt))"

text \<open>The branch of \<open>ImouSensor.async_update\<close> for the sensor type \<open>status\<close>.\<close>

definition update_status ::
  "'w ImouAPIClient \<Rightarrow> ImouSensor \<Rightarrow> 'w runtime \<Rightarrow> (error + unit) \<times> ImouSensor \<times> 'w runtime" where
  "update_status api s rt =
     (case call (Api_deviceOnline (ent_device_id s))
             (async_api_deviceOnline api (ent_device_id s)) rt of
        (Inl e, rt1) \<Rightarrow> (Inl e, s, rt1)
      | (Inr device_data, rt1) \<Rightarrow>
          (case op_onLine device_data of
             None \<Rightarrow> (Inl InvalidResponse, s, rt1)
           | Some top_code \<Rightarrow>
               if dict_contains ONLINE_STATUS top_code then
                 (case op_channels device_data of
                    None \<Rightarrow> (Inl KeyError, s, rt1)
                  | Some chans \<Rightarrow>
                      (case find_channel_online (ent_channel_id s) chans of
                         Inl e \<Rightarrow> (Inl e, s, rt1)
                       | Inr None \<Rightarrow> set_state ''UNKNOWN'' s rt1
                       | Inr (Some channel_data) \<Rightarrow>
                           (case oc_onLine channel_data of
                              None \<Rightarrow> (Inl KeyError, s, rt1)
                            | Some code \<Rightarrow>
                                if dict_contains ONLINE_STATUS code
                                then set_state code s rt1
                                else set_state ''UNKNOWN'' s rt1)))
               else set_state ''UNKNOWN'' s rt1))"

definition ImouSensor_async_update ::
  "'w ImouAPIClient \<Rightarrow> ImouSensor \<Rightarrow> ImouCamChannel option \<Rightarrow> 'w runtime \<Rightarrow>
   (error + unit) \<times> ImouSensor \<times> ImouCamChannel option \<times> 'w runtime" where
  "ImouSensor_async_update api s owner rt =
     (case async_is_ready api s owner rt of
        (Inl e, owner1, rt1) \<Rightarrow> (Inl e, s, owner1, rt1)
      | (Inr ready, owner1, rt1) \<Rightarrow>
          if \<not> ready then (Inr (), s, owner1, rt1)
          else
            (case (if ent_sensor_type s = ''status'' then update_status api s rt1
                   else (Inr (), s, rt1)) of
               (Inl e, s1, rt2) \<Rightarrow> (Inl e, s1, owner1, rt2)
             | (Inr u, s1, rt2) \<Rightarrow>
                 (Inr (), (if \<not> ent_updated s1 then s1\<lparr>ent_updated := True\<rparr> else s1),
                  owner1, emit (Log Debug) rt2)))"

definition get_state :: "ImouSensor \<Rightarrow> string option" where
  "get_state s = state s"

definition ImouButton_async_press ::
  "'w ImouAPIClient \<Rightarrow> ImouEntity \<Rightarrow> ImouCamChannel option \<Rightarrow> 'w runtime \<Rightarrow>
   (error + unit) \<times> ImouEntity \<times> ImouCamChannel option \<times> 'w runtime" where
  "ImouButton_async_press api b owner rt =
     (case async_is_ready api b owner rt of
        (Inl e, owner1, rt1) \<Rightarrow> (Inl e, b, owner1, rt1)
      | (Inr ready, owner1, rt1) \<Rightarrow>
          if \<not> ready then (Inr (), b, owner1, rt1)
          else
            (case (if ent_sensor_type b = ''restartDevice''
                   then call (Api_restartDevice (ent_device_id b))
                          (async_api_restartDevice api (ent_device_id b)) rt1
                   else if ent_sensor_type b = ''turnCollection''
                   then call (Api_turnCollection (ent_device_id b) (ent_channel_id b) (ent_sensor_param b))
                          (async_api_turnCollection api (ent_device_id b) (ent_channel_id b) (ent_sensor_param b)) rt1
                   else (Inr (), rt1)) of
               (Inl e, rt2) \<Rightarrow> (Inl e, b, owner1, rt2)
             | (Inr u, rt2) \<Rightarrow>
                 (Inr (), (if \<not> ent_updated b then b\<lparr>ent_updated := True\<rparr> else b),
                  owner1, emit (Log Debug) rt2)))"

text \<open>
  The placeholder that \<open>ImouSelect.async_update\<close> puts at index 0: the text
  \<open>Select a point\<close> between two downwards arrows (U+2B07), here in UTF-8.
\<close>

definition SELECT_A_POINT :: string where
  "SELECT_A_POINT =
     [CHR 0xE2, CHR 0xAC, CHR 0x87] @ '' Select a point '' @ [CHR 0xE2, CHR 0xAC, CHR 0x87]"

text \<open>\<open>[c["name"] for c in favourites["collections"]]\<close>\<close>

fun collection_names :: "collection list \<Rightarrow> error + string list" where
  "collection_names [] = Inr []"
| "collection_names (c # cs) =
     (case col_name c of
        None \<Rightarrow> Inl KeyError
      | Some n \<Rightarrow> (case collection_names cs of Inl e \<Rightarrow> Inl e | Inr ns \<Rightarrow> Inr (n # ns)))"

definition ImouSelect_async_update ::
  "'w ImouAPIClient \<Rightarrow> ImouSelect \<Rightarrow> ImouCamChannel option \<Rightarrow> 'w runtime \<Rightarrow>
   (error + unit) \<times> ImouSelect \<times> ImouCamChannel option \<times> 'w runtime" where
  "ImouSelect_async_update api sel owner rt =
     (case async_is_ready api sel owner rt of
        (Inl e, owner1, rt1) \<Rightarrow> (Inl e, sel, owner1, rt1)
      | (Inr ready, owner1, rt1) \<Rightarrow>
          if \<not> ready then (Inr (), sel, owner1, rt1)
          else
            (case (if ent_sensor_type sel = ''turnCollection'' then
                     (case call (Api_getCollection (ent_device_id sel) (ent_channel_id sel))
                             (async_api_getCollection api (ent_device_id sel) (ent_channel_id sel)) rt1 of
                        (Inl e, rt2) \<Rightarrow> (Inl e, sel, rt2)
                      | (Inr favourites, rt2) \<Rightarrow>
                          (case cp_collections favourites of
                             None \<Rightarrow> (Inl KeyError, sel, rt2)
                           | Some cols \<Rightarrow>
                               (case collection_names cols of
                                  Inl e \<Rightarrow> (Inl e, sel, emit (Log Debug) rt2)
                                | Inr names \<Rightarrow>
                                    (Inr (),
                                     sel\<lparr>available_options := SELECT_A_POINT # names,
                                         current_option := Some SELECT_A_POINT\<rparr>,
                                     emit (Log Debug) rt2))))
                   else (Inr (), sel, rt1)) of
               (Inl e, sel1, rt3) \<Rightarrow> (Inl e, sel1, owner1, rt3)
             | (Inr u, sel1, rt3) \<Rightarrow>
                 (Inr (), (if \<not> ent_updated sel1 then sel1\<lparr>ent_updated := True\<rparr> else sel1),
                  owner1, emit (Log Debug) rt3)))"

text \<open>
  \<open>async_select_option\<close>: the comparison with \<open>self._available_options[0]\<close> comes
  first and raises \<open>IndexError\<close> on an empty list; the readiness gate comes second.
\<close>

definition async_select_option ::
  "'w ImouAPIClient \<Rightarrow> ImouSelect \<Rightarrow> ImouCamChannel option \<Rightarrow> string \<Rightarrow> 'w runtime \<Rightarrow>
   (error + unit) \<times> ImouSelect \<times> ImouCamChannel option \<times> 'w runtime" where
  "async_select_option api sel owner option rt =
     (if available_options sel = [] then (Inl IndexError, sel, owner, rt)
      else if option = available_options sel ! 0 then (Inr (), sel, owner, rt)
      else
        (case async_is_ready api sel owner rt of
           (Inl e, owner1, rt1) \<Rightarrow> (Inl e, sel, owner1, rt1)
         | (Inr ready, owner1, rt1) \<Rightarrow>
             if \<not> ready then (Inr (), sel, owner1, rt1)
             else if ent_sensor_type sel = ''turnCollection'' then
               (case call (Api_turnCollection (ent_device_id sel) (ent_channel_id sel) option)
                       (async_api_turnCollection api (ent_device_id sel) (ent_channel_id sel) option)
                       (emit (Log Debug) rt1) of
                  (Inl e, rt2) \<Rightarrow> (Inl e, sel, owner1, rt2)
                | (Inr u, rt2) \<Rightarrow>
                    (Inr (), sel\<lparr>current_option := Some (available_options sel ! 0)\<rparr>, owner1, rt2))
             else (Inr (), sel, owner1, emit (Log Debug) rt1)))"

section \<open>Reading the trace\<close>





section \<open>Concrete API clients\<close>

text \<open>
  A cloud that answers every lookup with a fixed response and accepts every
  command; its world has no state.
\<close>

definition fixed_api ::
  "base_list_payload \<Rightarrow> (string list \<Rightarrow> detail_list_payload) \<Rightarrow> collection_payload \<Rightarrow>
   online_payload \<Rightarrow> unit ImouAPIClient" where
  "fixed_api devices detail favourites online =
     \<lparr>async_api_deviceBaseList = (\<lambda>w. (Inr devices, w)),
      async_api_deviceBaseDetailList = (\<lambda>ids w. (Inr (detail ids), w)),
      async_api_getCollection = (\<lambda>d c w. (Inr favourites, w)),
      async_api_deviceOnline = (\<lambda>d w. (Inr online, w)),
      async_api_setDeviceCameraStatus = (\<lambda>d k v w. (Inr (), w)),
      async_api_restartDevice = (\<lambda>d w. (Inr (), w)),
      async_api_turnCollection = (\<lambda>d c n w. (Inr (), w))\<rparr>"

text \<open>A cloud that cannot be used: every call raises the given exception.\<close>

definition failing_api :: "error \<Rightarrow> unit ImouAPIClient" where
  "failing_api e =
     \<lparr>async_api_deviceBaseList = (\<lambda>w. (Inl e, w)),
      async_api_deviceBaseDetailList = (\<lambda>ids w. (Inl e, w)),
      async_api_getCollection = (\<lambda>d c w. (Inl e, w)),
      async_api_deviceOnline = (\<lambda>d w. (Inl e, w)),
      async_api_setDeviceCameraStatus = (\<lambda>d k v w. (Inl e, w)),
      async_api_restartDevice = (\<lambda>d w. (Inl e, w)),
      async_api_turnCollection = (\<lambda>d c n w. (Inl e, w))\<rparr>"

text \<open>
  One battery camera with one channel \<open>0\<close>. The world is whether the camera is
  awake: the device is online, the channel reports \<open>1\<close> when awake and \<open>4\<close>
  (dormant) otherwise. The wake command either wakes the camera
  (\<open>accepts = True\<close>) or is refused with \<open>APIError\<close>.
\<close>

definition camera_online :: "bool \<Rightarrow> online_payload" where
  "camera_online awake =
     \<lparr>op_onLine = Some ''1'',
      op_channels = Some [\<lparr>oc_channelId = Some ''0'',
                            oc_onLine = Some (if awake then ''1'' else ''4'')\<rparr>]\<rparr>"

definition camera_api :: "bool \<Rightarrow> bool ImouAPIClient" where
  "camera_api accepts =
     \<lparr>async_api_deviceBaseList = (\<lambda>w. (Inl APIError, w)),
      async_api_deviceBaseDetailList = (\<lambda>ids w. (Inl APIError, w)),
      async_api_getCollection = (\<lambda>d c w. (Inl APIError, w)),
      async_api_deviceOnline = (\<lambda>d w. (Inr (camera_online w), w)),
      async_api_setDeviceCameraStatus =
        (\<lambda>d k v w. if accepts then (Inr (), True) else (Inl APIError, w)),
      async_api_restartDevice = (\<lambda>d w. (Inr (), w)),
      async_api_turnCollection = (\<lambda>d c n w. (Inr (), w))\<rparr>"

text \<open>
  Three registered devices \<open>D1\<close>, \<open>D2\<close>, \<open>D3\<close> with one channel each; the detail
  lookup of \<open>D2\<close> answers without a device list.
\<close>

definition three_devices :: base_list_payload where
  "three_devices =
     \<lparr>bl_deviceList = Some [\<lparr>bd_deviceId = Some ''D1''\<rparr>,
                             \<lparr>bd_deviceId = Some ''D2''\<rparr>,
                             \<lparr>bd_deviceId = Some ''D3''\<rparr>],
      bl_count = Some 3\<rparr>"

definition detail_of :: "string list \<Rightarrow> detail_list_payload" where
  "detail_of ids =
     (if ids = [''D2''] then \<lparr>dl_deviceList = None\<rparr>
      else \<lparr>dl_deviceList = Some
              [\<lparr>dd_name = Some (concat ids), dd_deviceModel = Some ''X1'',
                dd_channels = Some [\<lparr>cd_deviceId = Some (concat ids),
                                      cd_channelId = Some ''0'',
                                      cd_channelName = Some ''Cam''\<rparr>]\<rparr>]\<rparr>)"

definition three_devices_api :: "unit ImouAPIClient" where
  "three_devices_api =
     fixed_api three_devices detail_of \<lparr>cp_collections = Some []\<rparr> (camera_online True)"

definition start :: "'w \<Rightarrow> 'w runtime" where
  "start w = \<lparr>world = w, trace = []\<rparr>"

section \<open>Concrete channels and entities\<close>

text \<open>A channel of the camera above whose \<open>_sleepable\<close> attribute has been set.\<close>

definition dormant_channel :: ImouCamChannel where
  "dormant_channel = (ImouCamChannel_init ''D1'' ''0'')\<lparr>sleepable := True\<rparr>"

text \<open>The status sensor that \<open>async_initialize\<close> creates for channel \<open>0\<close> of \<open>D1\<close>.\<close>

definition status_sensor :: ImouSensor where
  "status_sensor =
     \<lparr>ent_device_id = ''D1'', ent_channel_id = ''0'', ent_sensor_param = [],
      ent_sensor_type = ''status'', ent_description = ''Status '',
      ent_enabled = True, ent_updated = False, ent_attributes = [], state = None\<rparr>"

text \<open>A cloud whose online lookup answers with the given payload.\<close>

definition online_api :: "online_payload \<Rightarrow> unit ImouAPIClient" where
  "online_api p = fixed_api three_devices detail_of \<lparr>cp_collections = Some []\<rparr> p"

definition channel_record :: "string \<Rightarrow> string \<Rightarrow> online_channel" where
  "channel_record cid code = \<lparr>oc_channelId = Some cid, oc_onLine = Some code\<rparr>"

text \<open>
  The select of channel \<open>0\<close> of \<open>D1\<close> as the constructor leaves it, and after an
  update that found the single collection \<open>Door\<close>.
\<close>

definition new_select :: ImouSelect where
  "new_select =
     \<lparr>ent_device_id = ''D1'', ent_channel_id = ''0'', ent_sensor_param = [],
      ent_sensor_type = ''turnCollection'', ent_description = ''Turn to favourite point '',
      ent_enabled = True, ent_updated = False, ent_attributes = [],
      current_option = None, available_options = []\<rparr>"

definition options_select :: ImouSelect where
  "options_select =
     \<lparr>ent_device_id = ''D1'', ent_channel_id = ''0'', ent_sensor_param = [],
      ent_sensor_type = ''turnCollection'', ent_description = ''Turn to favourite point '',
      ent_enabled = True, ent_updated = True, ent_attributes = [],
      current_option = Some SELECT_A_POINT,
      available_options = [SELECT_A_POINT, ''Door'']\<rparr>"

section \<open>The status table\<close>

lemma ONLINE_STATUS_contains:
  "dict_contains ONLINE_STATUS k = (k = ''0'' \<or> k = ''1'' \<or> k = ''4'' \<or> k = ''UNKNOWN'')"
  by (auto simp: dict_contains_def ONLINE_STATUS_def)

lemma ONLINE_STATUS_get:
  "dict_get ONLINE_STATUS k =
     (if k = ''0'' then Inr ''Offline''
      else if k = ''1'' then Inr ''Online''
      else if k = ''4'' then Inr ''Dormant''
      else if k = ''UNKNOWN'' then Inr ''Unknown''
      else Inl KeyError)"
  by (simp add: dict_get_def ONLINE_STATUS_def)

section \<open>Refreshing the status\<close>



lemma async_refresh_status_failure:
  assumes "async_refresh_status api ch rt = (Inl e, ch', rt')"
  shows "ch' = ch"
  using assms
  by (auto simp: async_refresh_status_def call_def
           split: prod.splits sum.splits option.splits if_splits)

text \<open>
  C1 (as amended). When the online lookup returns a payload whose top-level code is
  recognized and whose first record for this channel carries a recognized code,
  \<open>async_refresh_status\<close> succeeds and stores that raw code itself as the
  status, so \<open>get_status\<close> returns the code; the code is a key of
  \<open>ONLINE_STATUS\<close>, and its label there is one of Offline, Online, Dormant and
  Unknown.
\<close>

theorem refresh_status_stores_code:
  assumes "async_api_deviceOnline api (device_id ch) (world rt) = (Inr p, w')"
    and "op_onLine p = Some top_code"
    and "dict_contains ONLINE_STATUS top_code"
    and "op_channels p = Some chans"
    and "find_channel_get (channel_id ch) chans = Some channel_data"
    and "oc_onLine channel_data = Some code"
    and "dict_contains ONLINE_STATUS code"
  shows "async_refresh_status api ch rt =
           (Inr (), ch\<lparr>status := code\<rparr>,
            \<lparr>world = w', trace = trace rt @ [Api_deviceOnline (device_id ch)]\<rparr>)
         \<and> get_status (ch\<lparr>status := code\<rparr>) = code
         \<and> (\<exists>label. dict_get ONLINE_STATUS code = Inr label
              \<and> (label = ''Offline'' \<or> label = ''Online'' \<or> label = ''Dormant''
                   \<or> label = ''Unknown''))"
proof -
  have run: "async_refresh_status api ch rt =
           (Inr (), ch\<lparr>status := code\<rparr>,
            \<lparr>world = w', trace = trace rt @ [Api_deviceOnline (device_id ch)]\<rparr>)"
    using assms by (simp add: async_refresh_status_def call_def)
  have lab: "\<exists>label. dict_get ONLINE_STATUS code = Inr label
              \<and> (label = ''Offline'' \<or> label = ''Online'' \<or> label = ''Dormant''
                   \<or> label = ''Unknown'')"
    using assms(7) by (auto simp: ONLINE_STATUS_contains ONLINE_STATUS_get)
  show ?thesis using run lab by (simp add: get_status_def)
qed

text \<open>
  The scenario of the claim: top-level code \<open>1\<close>, channel code \<open>4\<close>. The stored
  status is \<open>4\<close>, whose label is Dormant.
\<close>

theorem refresh_status_stores_code_witness:
  "async_api_deviceOnline (camera_api True) (device_id (ImouCamChannel_init ''D1'' ''0'')) False
     = (Inr (camera_online False), False)
   \<and> op_onLine (camera_online False) = Some ''1''
   \<and> op_channels (camera_online False) = Some [channel_record ''0'' ''4'']
   \<and> find_channel_get (channel_id (ImouCamChannel_init ''D1'' ''0'')) [channel_record ''0'' ''4'']
       = Some (channel_record ''0'' ''4'')
   \<and> dict_contains ONLINE_STATUS ''1'' \<and> dict_contains ONLINE_STATUS ''4''
   \<and> async_refresh_status (camera_api True) (ImouCamChannel_init ''D1'' ''0'') (start False)
       = (Inr (), (ImouCamChannel_init ''D1'' ''0'')\<lparr>status := ''4''\<rparr>,
          \<lparr>world = False, trace = [Api_deviceOnline ''D1'']\<rparr>)
   \<and> get_status ((ImouCamChannel_init ''D1'' ''0'')\<lparr>status := ''4''\<rparr>) = ''4''
   \<and> dict_get ONLINE_STATUS ''4'' = Inr ''Dormant''"
proof -
  have h1: "async_api_deviceOnline (camera_api True) (device_id (ImouCamChannel_init ''D1'' ''0''))
              (world (start False)) = (Inr (camera_online False), False)"
    by (simp add: camera_api_def start_def)
  have h2: "op_onLine (camera_online False) = Some ''1''"
    by (simp add: camera_online_def)
  have h3: "dict_contains ONLINE_STATUS ''1''"
    by (simp add: ONLINE_STATUS_contains)
  have h4: "op_channels (camera_online False) = Some [channel_record ''0'' ''4'']"
    by (simp add: camera_online_def channel_record_def)
  have h5: "find_channel_get (channel_id (ImouCamChannel_init ''D1'' ''0'')) [channel_record ''0'' ''4'']
       = Some (channel_record ''0'' ''4'')"
    by (simp add: channel_record_def ImouCamChannel_init_def)
  have h6: "oc_onLine (channel_record ''0'' ''4'') = Some ''4''"
    by (simp add: channel_record_def)
  have h7: "dict_contains ONLINE_STATUS ''4''"
    by (simp add: ONLINE_STATUS_contains)
  show ?thesis
    using h1 h2 h3 h4 h5 h6 h7 refresh_status_stores_code [OF h1 h2 h3 h4 h5 h6 h7]
    by (simp add: start_def ImouCamChannel_init_def ONLINE_STATUS_get)
qed

text \<open>
  C1 as stated fails: with top-level code \<open>1\<close> and channel code \<open>4\<close> the call
  succeeds and \<open>get_status\<close> then returns \<open>4\<close>, not the label Dormant.
\<close>

theorem refresh_status_label_counterexample:
  "fst (async_refresh_status (camera_api True) (ImouCamChannel_init ''D1'' ''0'') (start False))
     = Inr ()
   \<and> get_status (fst (snd (async_refresh_status (camera_api True)
                             (ImouCamChannel_init ''D1'' ''0'') (start False)))) = ''4''
   \<and> get_status (fst (snd (async_refresh_status (camera_api True)
                             (ImouCamChannel_init ''D1'' ''0'') (start False)))) \<noteq> ''Dormant''"
  by (simp add: async_refresh_status_def call_def camera_api_def camera_online_def start_def
        ImouCamChannel_init_def ONLINE_STATUS_contains get_status_def)

section \<open>The status of a new channel\<close>

text \<open>
  C5. On a freshly constructed channel \<open>is_online\<close> raises \<open>KeyError\<close>: the
  constructor's status is the lowercase string \<open>unknown\<close>, which is not a key of
  \<open>ONLINE_STATUS\<close>, whose keys are \<open>0\<close>, \<open>1\<close>, \<open>4\<close> and \<open>UNKNOWN\<close>.
\<close>

theorem is_online_before_refresh:
  "status (ImouCamChannel_init did cid) = ''unknown''
   \<and> map fst ONLINE_STATUS = [''0'', ''1'', ''4'', ''UNKNOWN'']
   \<and> dict_contains ONLINE_STATUS ''unknown'' = False
   \<and> is_online (ImouCamChannel_init did cid) = Inl KeyError"
  by (simp add: ImouCamChannel_init_def is_online_def ONLINE_STATUS_get ONLINE_STATUS_contains)
     (simp add: ONLINE_STATUS_def)

text \<open>A refresh that fails leaves the status, and so this behaviour, as it was.\<close>

lemma is_online_after_failed_refresh:
  assumes "async_refresh_status api (ImouCamChannel_init did cid) rt = (Inl e, ch', rt')"
  shows "is_online ch' = Inl KeyError"
  using async_refresh_status_failure [OF assms]
  by (simp add: ImouCamChannel_init_def is_online_def ONLINE_STATUS_get)

section \<open>Waking up\<close>

text \<open>
  C10. On a channel that is not sleep-capable \<open>async_wakeup\<close> returns true and
  leaves the channel, the world and the trace as they were: it issues no API
  call, neither a status lookup nor a wake command.
\<close>

theorem wakeup_not_sleepable:
  "\<not> sleepable ch \<Longrightarrow> async_wakeup api ch rt = (Inr True, ch, rt)"
  by (simp add: async_wakeup_def)

theorem wakeup_not_sleepable_witness:
  "\<not> sleepable (ImouCamChannel_init ''D1'' ''0'')
   \<and> async_wakeup (camera_api True) (ImouCamChannel_init ''D1'' ''0'') (start False)
       = (Inr True, ImouCamChannel_init ''D1'' ''0'', start False)
   \<and> trace (snd (snd (async_wakeup (camera_api True) (ImouCamChannel_init ''D1'' ''0'')
                         (start False)))) = []"
proof -
  have h: "\<not> sleepable (ImouCamChannel_init ''D1'' ''0'')"
    by (simp add: ImouCamChannel_init_def)
  show ?thesis
    using h wakeup_not_sleepable [OF h, of "camera_api True" "start False"]
    by (simp add: start_def)
qed




section \<open>Initializing a channel\<close>

text \<open>
  C4. Whenever the body of \<open>async_initialize\<close> raises a domain exception,
  \<open>async_initialize\<close> itself returns normally: the exception is logged as an
  error and not propagated, the attributes assigned before the exception stay,
  and the initialized flag is true on return.
\<close>

theorem initialize_catches_domain_exceptions:
  assumes "initialize_body api ch rt = (Inl e, ch1, rt1)"
    and "is_ImouException e"
  shows "async_initialize api ch rt = (Inr (), ch1\<lparr>initialized := True\<rparr>, emit (Log Error) rt1)
         \<and> initialized (fst (snd (async_initialize api ch rt)))
         \<and> trace (snd (snd (async_initialize api ch rt))) = trace rt1 @ [Log Error]"
  using assms by (simp add: async_initialize_def emit_def)

text \<open>
  The detail lookup of \<open>D2\<close> answers without a device list: the body raises
  \<open>InvalidResponse\<close>, and the channel comes back initialized.
\<close>

theorem initialize_catches_domain_exceptions_witness:
  "initialize_body three_devices_api (ImouCamChannel_init ''D2'' ''0'') (start ())
     = (Inl InvalidResponse, ImouCamChannel_init ''D2'' ''0'',
        \<lparr>world = (), trace = [Api_deviceBaseDetailList [''D2'']]\<rparr>)
   \<and> is_ImouException InvalidResponse
   \<and> async_initialize three_devices_api (ImouCamChannel_init ''D2'' ''0'') (start ())
     = (Inr (), (ImouCamChannel_init ''D2'' ''0'')\<lparr>initialized := True\<rparr>,
        \<lparr>world = (), trace = [Api_deviceBaseDetailList [''D2''], Log Error]\<rparr>)"
proof -
  have body: "initialize_body three_devices_api (ImouCamChannel_init ''D2'' ''0'') (start ())
     = (Inl InvalidResponse, ImouCamChannel_init ''D2'' ''0'',
        \<lparr>world = (), trace = [Api_deviceBaseDetailList [''D2'']]\<rparr>)"
    by (simp add: initialize_body_def call_def three_devices_api_def fixed_api_def detail_of_def
          start_def ImouCamChannel_init_def)
  have dom: "is_ImouException InvalidResponse" by simp
  show ?thesis
    using body dom initialize_catches_domain_exceptions [OF body dom]
    by (simp add: emit_def)
qed

text \<open>
  The situations the claim names do raise a domain exception in the body: the
  device list is absent, it has not exactly one element, this channel's id is
  not among the device's channels, or the API client itself raises.
\<close>

lemma initialize_body_device_list_absent:
  assumes "async_api_deviceBaseDetailList api [device_id ch] (world rt) = (Inr p, w')"
    and "dl_deviceList p = None"
  shows "fst (initialize_body api ch rt) = Inl InvalidResponse"
  using assms by (simp add: initialize_body_def call_def)

lemma initialize_body_device_list_not_single:
  assumes "async_api_deviceBaseDetailList api [device_id ch] (world rt) = (Inr p, w')"
    and "dl_deviceList p = Some dl" and "length dl \<noteq> 1"
  shows "fst (initialize_body api ch rt) = Inl InvalidResponse"
  using assms by (simp add: initialize_body_def call_def)

lemma initialize_body_channel_not_found:
  assumes "async_api_deviceBaseDetailList api [device_id ch] (world rt) = (Inr p, w')"
    and "dl_deviceList p = Some [d]"
    and "dd_name d = Some nm" and "dd_deviceModel d = Some model"
    and "dd_channels d = Some chans"
    and "find_channel_detail (channel_id ch) chans = Inr None"
  shows "fst (initialize_body api ch rt) = Inl InvalidResponse"
  using assms by (simp add: initialize_body_def call_def)

lemma initialize_body_api_error:
  assumes "async_api_deviceBaseDetailList api [device_id ch] (world rt) = (Inl e, w')"
  shows "fst (initialize_body api ch rt) = Inl e"
  using assms by (simp add: initialize_body_def call_def)

text \<open>An exception outside the domain family is not caught, and the flag stays.\<close>

lemma initialize_propagates_other_exceptions:
  assumes "initialize_body api ch rt = (Inl e, ch1, rt1)"
    and "\<not> is_ImouException e"
  shows "async_initialize api ch rt = (Inl e, ch1, rt1)"
  using assms by (simp add: async_initialize_def)

section \<open>The status sensor\<close>

text \<open>
  C3 (as amended). For a ready sensor of type \<open>status\<close> whose online lookup
  returns a payload: when the device-level code is absent, \<open>async_update\<close>
  raises \<open>InvalidResponse\<close> and leaves the state as it was; when the
  device-level code is present but not recognized, or it is recognized and the
  channel list holds no record for this channel, or the record of this channel
  carries a code that is not recognized, the state is set to Unknown and no
  exception is raised.
\<close>

theorem sensor_update_unknown:
  assumes ready: "async_is_ready api s owner rt = (Inr True, owner1, rt1)"
    and type: "ent_sensor_type s = ''status''"
    and payload: "async_api_deviceOnline api (ent_device_id s) (world rt1) = (Inr p, w')"
  shows "(op_onLine p = None \<longrightarrow>
            fst (ImouSensor_async_update api s owner rt) = Inl InvalidResponse
            \<and> get_state (fst (snd (ImouSensor_async_update api s owner rt))) = get_state s)
         \<and> (op_onLine p = Some top_code \<and> \<not> dict_contains ONLINE_STATUS top_code \<longrightarrow>
            fst (ImouSensor_async_update api s owner rt) = Inr ()
            \<and> get_state (fst (snd (ImouSensor_async_update api s owner rt))) = Some ''Unknown'')
         \<and> (op_onLine p = Some top_code \<and> dict_contains ONLINE_STATUS top_code
            \<and> op_channels p = Some chans
            \<and> find_channel_online (ent_channel_id s) chans = Inr None \<longrightarrow>
            fst (ImouSensor_async_update api s owner rt) = Inr ()
            \<and> get_state (fst (snd (ImouSensor_async_update api s owner rt))) = Some ''Unknown'')
         \<and> (op_onLine p = Some top_code \<and> dict_contains ONLINE_STATUS top_code
            \<and> op_channels p = Some chans
            \<and> find_channel_online (ent_channel_id s) chans = Inr (Some channel_data)
            \<and> oc_onLine channel_data = Some code \<and> \<not> dict_contains ONLINE_STATUS code \<longrightarrow>
            fst (ImouSensor_async_update api s owner rt) = Inr ()
            \<and> get_state (fst (snd (ImouSensor_async_update api s owner rt))) = Some ''Unknown'')"
  using ready type payload
  by (simp add: ImouSensor_async_update_def update_status_def call_def set_state_def
        ONLINE_STATUS_get get_state_def)

text \<open>
  One payload for each case: no device-level code; the unknown device-level
  code \<open>7\<close>; no record for channel \<open>0\<close>; the unknown channel code \<open>9\<close>.
\<close>

theorem sensor_update_unknown_witness:
  "async_is_ready (online_api \<lparr>op_onLine = Some ''7'', op_channels = Some [channel_record ''0'' ''1'']\<rparr>)
      status_sensor None (start ()) = (Inr True, None, start ())
   \<and> ent_sensor_type status_sensor = ''status''
   \<and> fst (ImouSensor_async_update
        (online_api \<lparr>op_onLine = None, op_channels = Some [channel_record ''0'' ''1'']\<rparr>)
        status_sensor None (start ())) = Inl InvalidResponse
   \<and> get_state (fst (snd (ImouSensor_async_update
        (online_api \<lparr>op_onLine = Some ''7'', op_channels = Some [channel_record ''0'' ''1'']\<rparr>)
        status_sensor None (start ())))) = Some ''Unknown''
   \<and> get_state (fst (snd (ImouSensor_async_update
        (online_api \<lparr>op_onLine = Some ''1'', op_channels = Some [channel_record ''5'' ''1'']\<rparr>)
        status_sensor None (start ())))) = Some ''Unknown''
   \<and> get_state (fst (snd (ImouSensor_async_update
        (online_api \<lparr>op_onLine = Some ''1'', op_channels = Some [channel_record ''0'' ''9'']\<rparr>)
        status_sensor None (start ())))) = Some ''Unknown''"
proof -
  have ready: "async_is_ready (online_api p) status_sensor None (start ()) = (Inr True, None, start ())"
    for p
    by (simp add: async_is_ready_def status_sensor_def)
  have type: "ent_sensor_type status_sensor = ''status''"
    by (simp add: status_sensor_def)
  have payload: "async_api_deviceOnline (online_api p) (ent_device_id status_sensor)
                   (world (start ())) = (Inr p, ())" for p
    by (simp add: online_api_def fixed_api_def)
  note inst = sensor_update_unknown [OF ready type payload]
  have a: "fst (ImouSensor_async_update
        (online_api \<lparr>op_onLine = None, op_channels = Some [channel_record ''0'' ''1'']\<rparr>)
        status_sensor None (start ())) = Inl InvalidResponse"
    using inst [of "\<lparr>op_onLine = None, op_channels = Some [channel_record ''0'' ''1'']\<rparr>"]
    by simp
  have b: "get_state (fst (snd (ImouSensor_async_update
        (online_api \<lparr>op_onLine = Some ''7'', op_channels = Some [channel_record ''0'' ''1'']\<rparr>)
        status_sensor None (start ())))) = Some ''Unknown''"
    using inst [of "\<lparr>op_onLine = Some ''7'', op_channels = Some [channel_record ''0'' ''1'']\<rparr>" "''7''"]
    by (simp add: ONLINE_STATUS_contains)
  have c: "get_state (fst (snd (ImouSensor_async_update
        (online_api \<lparr>op_onLine = Some ''1'', op_channels = Some [channel_record ''5'' ''1'']\<rparr>)
        status_sensor None (start ())))) = Some ''Unknown''"
    using inst [of "\<lparr>op_onLine = Some ''1'', op_channels = Some [channel_record ''5'' ''1'']\<rparr>"
                  "''1''" "[channel_record ''5'' ''1'']"]
    by (simp add: ONLINE_STATUS_contains channel_record_def status_sensor_def)
  have d: "get_state (fst (snd (ImouSensor_async_update
        (online_api \<lparr>op_onLine = Some ''1'', op_channels = Some [channel_record ''0'' ''9'']\<rparr>)
        status_sensor None (start ())))) = Some ''Unknown''"
    using inst [of "\<lparr>op_onLine = Some ''1'', op_channels = Some [channel_record ''0'' ''9'']\<rparr>"
                  "''1''" "[channel_record ''0'' ''9'']" "channel_record ''0'' ''9''" "''9''"]
    by (simp add: ONLINE_STATUS_contains channel_record_def status_sensor_def)
  show ?thesis using ready type a b c d by simp
qed

text \<open>
  C3 as stated fails: on a payload without the device-level code the update of
  a ready status sensor raises \<open>InvalidResponse\<close>, and the state is not Unknown.
\<close>

theorem sensor_update_absent_code_counterexample:
  "async_is_ready (online_api \<lparr>op_onLine = None, op_channels = Some [channel_record ''0'' ''1'']\<rparr>)
      status_sensor None (start ()) = (Inr True, None, start ())
   \<and> ent_sensor_type status_sensor = ''status''
   \<and> fst (ImouSensor_async_update
            (online_api \<lparr>op_onLine = None, op_channels = Some [channel_record ''0'' ''1'']\<rparr>)
            status_sensor None (start ())) = Inl InvalidResponse
   \<and> get_state (fst (snd (ImouSensor_async_update
            (online_api \<lparr>op_onLine = None, op_channels = Some [channel_record ''0'' ''1'']\<rparr>)
            status_sensor None (start ())))) \<noteq> Some ''Unknown''"
  by (simp add: ImouSensor_async_update_def async_is_ready_def update_status_def call_def
        online_api_def fixed_api_def status_sensor_def start_def get_state_def)

section \<open>Selecting an option\<close>

text \<open>
  C8. On a select whose list of available options is not empty,
  \<open>async_select_option\<close> with the option at index 0 returns at once: the
  select (its current option, its options and its updated flag), its channel,
  the world and the trace are as before, so no remote call is issued.
\<close>

theorem select_option_sentinel_noop:
  "available_options sel \<noteq> [] \<Longrightarrow>
   async_select_option api sel owner (available_options sel ! 0) rt = (Inr (), sel, owner, rt)"
  by (simp add: async_select_option_def)

theorem select_option_sentinel_noop_witness:
  "available_options options_select \<noteq> []
   \<and> available_options options_select ! 0 = SELECT_A_POINT
   \<and> async_select_option (camera_api True) options_select (Some dormant_channel) SELECT_A_POINT
        (start False)
       = (Inr (), options_select, Some dormant_channel, start False)"
proof -
  have h: "available_options options_select \<noteq> []"
    by (simp add: options_select_def)
  show ?thesis
    using h select_option_sentinel_noop [OF h, of "camera_api True" "Some dormant_channel" "start False"]
    by (simp add: options_select_def)
qed

text \<open>
  C9. On a select whose list of available options is empty, as the constructor
  leaves it, \<open>async_select_option\<close> raises \<open>IndexError\<close> for every option, whether
  the entity is enabled or not, and before anything else happens.
\<close>

theorem select_option_empty_IndexError:
  "available_options sel = [] \<Longrightarrow>
   async_select_option api sel owner option rt = (Inl IndexError, sel, owner, rt)"
  by (simp add: async_select_option_def)

theorem select_option_empty_IndexError_witness:
  "ImouSelect_init ''D1'' ''0'' ''turnCollection'' [] = Inr new_select
   \<and> available_options new_select = []
   \<and> async_select_option (camera_api True) new_select None ''Door'' (start False)
       = (Inl IndexError, new_select, None, start False)
   \<and> available_options (new_select\<lparr>ent_enabled := False\<rparr>) = []
   \<and> async_select_option (camera_api True) (new_select\<lparr>ent_enabled := False\<rparr>) None ''Door''
        (start False)
       = (Inl IndexError, new_select\<lparr>ent_enabled := False\<rparr>, None, start False)"
proof -
  have i: "ImouSelect_init ''D1'' ''0'' ''turnCollection'' [] = Inr new_select"
    by (simp add: ImouSelect_init_def new_select_def dict_get_def SELECTS_def)
  have h: "available_options new_select = []"
    by (simp add: new_select_def)
  have h': "available_options (new_select\<lparr>ent_enabled := False\<rparr>) = []"
    by (simp add: new_select_def)
  show ?thesis
    using i h h'
      select_option_empty_IndexError [OF h, of "camera_api True" None "''Door''" "start False"]
      select_option_empty_IndexError [OF h', of "camera_api True" None "''Door''" "start False"]
    by simp
qed

text \<open>The constructor always leaves the list empty.\<close>

lemma ImouSelect_init_no_options:
  "ImouSelect_init did cid sensor_type sensor_param = Inr sel \<Longrightarrow> available_options sel = []"
  by (auto simp: ImouSelect_init_def split: sum.splits)

section \<open>Discovery\<close>

text \<open>
  C2. Three registered devices, the detail lookup of the second one answering
  without a device list. \<open>async_discover_channels\<close> logs the warning and
  returns, but the device \<open>D3\<close> is never looked up: the result holds the channel
  of \<open>D1\<close> only.
\<close>

theorem discover_stops_at_unrecognized_device:
  "map_sum id (map fst) (fst (async_discover_channels three_devices_api (start ())))
     = Inr [''D1 - Cam'']
   \<and> trace (snd (async_discover_channels three_devices_api (start ())))
     = [Log Debug, Api_deviceBaseList, Log Debug,
        Api_deviceBaseDetailList [''D1''],
        Api_deviceBaseDetailList [''D1''], Log Debug, Api_getCollection ''D1'' ''0'', Log Debug,
        Api_deviceBaseDetailList [''D2''], Log Warning]"
  by (simp add: async_discover_channels_def discover_body_def call_def emit_def
        three_devices_api_def fixed_api_def three_devices_def detail_of_def start_def
        async_initialize_def initialize_body_def add_entities_def add_sensor_instance_def
        ImouSensor_init_def ImouButton_init_def ImouSelect_init_def ImouCamChannel_init_def
        dict_get_def SENSORS_def BUTTONS_def SELECTS_def get_name_def)

text \<open>The third device is a good one: alone, its channel is discovered.\<close>

lemma third_device_is_recognized:
  "fst (discover_devices three_devices_api [\<lparr>bd_deviceId = Some ''D3''\<rparr>] [] (start ()))
     = Inr ()
   \<and> map fst (fst (snd (discover_devices three_devices_api [\<lparr>bd_deviceId = Some ''D3''\<rparr>] []
                          (start ())))) = [''D3 - Cam'']"
  by (simp add: call_def emit_def
        three_devices_api_def fixed_api_def detail_of_def start_def
        async_initialize_def initialize_body_def add_entities_def add_sensor_instance_def
        ImouSensor_init_def ImouButton_init_def ImouSelect_init_def ImouCamChannel_init_def
        dict_get_def SENSORS_def BUTTONS_def SELECTS_def get_name_def)

text \<open>
  C6. The device-list lookup itself fails with \<open>APIError\<close>. The exception is
  caught and logged, and the \<open>return\<close> statement then reads the local variable
  \<open>channels\<close>, which was never assigned: the call raises \<open>UnboundLocalError\<close>
  instead of returning an empty mapping.
\<close>

theorem discover_device_list_failure:
  "async_discover_channels (failing_api APIError) (start ())
     = (Inl UnboundLocalError,
        \<lparr>world = (), trace = [Log Debug, Api_deviceBaseList, Log Error]\<rparr>)"
  by (simp add: async_discover_channels_def discover_body_def call_def emit_def
        failing_api_def start_def)

text \<open>
  The same holds for every client whose device-list lookup raises a domain
  exception, while a domain exception raised once the loop has begun does
  return the channels accumulated so far.
\<close>

lemma discover_unbound_channels:
  assumes "async_api_deviceBaseList api (world rt) = (Inl e, w')"
    and "is_ImouException e"
  shows "fst (async_discover_channels api rt) = Inl UnboundLocalError"
  using assms by (simp add: async_discover_channels_def discover_body_def call_def emit_def)

lemma discover_returns_accumulated:
  assumes "discover_body api (emit (Log Debug) rt) = (Inl e, Some channels, rt1)"
    and "is_ImouException e"
  shows "fst (async_discover_channels api rt) = Inr channels"
  using assms by (simp add: async_discover_channels_def)

end
